theory Spec2Isabelle
  imports Main "HOL-Library.Char_ord" "HOL-Library.List_Lexorder" "HOL-Library.Product_Lexorder"
begin

section \<open>Olympic medals dashboard: data preparation and chart aggregations\<close>

text \<open>
  The program \<^verbatim>\<open>app.py\<close> reads a CSV file of Olympic medal counts into a data frame,
  prepares a working table (\<^verbatim>\<open>df\<close>), derives the option lists of three dropdowns and
  registers four callbacks, each of which turns the working table and the current
  dropdown values into a figure. The data-frame operations the program calls
  (\<^verbatim>\<open>replace\<close>, boolean indexing, \<^verbatim>\<open>groupby(...).sum()\<close>, \<^verbatim>\<open>nlargest\<close>,
  \<^verbatim>\<open>unique\<close>, \<^verbatim>\<open>drop_duplicates\<close>, \<^verbatim>\<open>sort_values\<close>) are modelled on lists of rows.
  Strings are compared as Python compares them, character by character.
\<close>

subsection \<open>Rows and frames\<close>

text \<open>
  One row of the CSV file, under the eight expected columns. The year and the three
  medal counts are integer columns, the other four hold strings.
\<close>

record medal_record =
  Year :: int
  Host_country :: string
  Host_city :: string
  Country_Name :: string
  Country_Code :: string
  Gold :: int
  Silver :: int
  Bronze :: int

text \<open>A row of the working table \<^verbatim>\<open>df\<close>: the eight columns and \<^verbatim>\<open>Total_Medals\<close>.\<close>

record working_row = medal_record +
  Total_Medals :: int

text \<open>
  What \<^verbatim>\<open>pd.read_csv\<close> hands back: the header of the file and its rows. The fields
  of a row are read only after the header has been checked for the eight expected
  columns.
\<close>

record frame =
  columns :: "string list"
  records :: "medal_record list"

text \<open>The three outcomes of the \<^verbatim>\<open>try\<close> block around \<^verbatim>\<open>pd.read_csv\<close>.\<close>

datatype read_csv_result =
    FileNotFoundError
  | Exception string
  | Parsed frame

text \<open>\<^verbatim>\<open>exit()\<close> during startup, with the lines printed before it.\<close>

datatype startup_exit = Exit "string list"

subsection \<open>Data-frame and string operations\<close>

text \<open>\<^verbatim>\<open>sep.join(xs)\<close>\<close>

fun join :: "string \<Rightarrow> string list \<Rightarrow> string" where
  "join sep [] = []"
| "join sep [x] = x"
| "join sep (x # y # ys) = x @ sep @ join sep (y # ys)"

text \<open>\<^verbatim>\<open>s.replace("_", " ")\<close>\<close>

definition replace_underscore :: "string \<Rightarrow> string" where
  "replace_underscore s = map (\<lambda>c. if c = CHR ''_'' then CHR '' '' else c) s"

text \<open>\<^verbatim>\<open>str(n)\<close> for an integer: its decimal digits, with a sign when negative.\<close>

function str_nat :: "nat \<Rightarrow> string" where
  "str_nat n =
     (if n < 10 then [char_of (48 + n)]
      else str_nat (n div 10) @ [char_of (48 + n mod 10)])"
  by pat_completeness auto
termination
  by (relation "measure id") auto

definition str_int :: "int \<Rightarrow> string" where
  "str_int i = (if i < 0 then CHR ''-'' # str_nat (nat (- i)) else str_nat (nat i))"

text \<open>
  One cell under \<^verbatim>\<open>Series.replace(old, new)\<close>: a value equal to \<^verbatim>\<open>old\<close> becomes
  \<^verbatim>\<open>new\<close>, every other value stays.
\<close>

definition replace_value :: "string \<Rightarrow> string \<Rightarrow> string \<Rightarrow> string" where
  "replace_value old new v = (if v = old then new else v)"

text \<open>
  \<^verbatim>\<open>Series.unique()\<close> and \<^verbatim>\<open>drop_duplicates()\<close>: the first occurrence of every
  value, in the order of appearance.
\<close>

fun unique :: "'a list \<Rightarrow> 'a list" where
  "unique [] = []"
| "unique (x # xs) = x # unique (removeAll x xs)"

text \<open>
  \<^verbatim>\<open>groupby(key)[col].sum()\<close>: one row per distinct key, the keys in ascending order,
  with the sum of the column over the rows of the group.
\<close>

definition groupby_sum :: "('r \<Rightarrow> 'k::linorder) \<Rightarrow> ('r \<Rightarrow> int) \<Rightarrow> 'r list \<Rightarrow> ('k \<times> int) list" where
  "groupby_sum key col rows =
     map (\<lambda>k. (k, sum_list (map col (filter (\<lambda>r. key r = k) rows))))
       (sort (unique (map key rows)))"

text \<open>
  \<^verbatim>\<open>nlargest(n, col)\<close> with the default \<^verbatim>\<open>keep='first'\<close>: the rows in descending
  order of the column, rows of equal value in their order of appearance, cut after
  \<^verbatim>\<open>n\<close> rows.
\<close>

definition nlargest :: "nat \<Rightarrow> ('a \<Rightarrow> int) \<Rightarrow> 'a list \<Rightarrow> 'a list" where
  "nlargest n col rows = take n (sort_key (\<lambda>r. - col r) rows)"

subsection \<open>Loading the data\<close>

definition expected_cols_from_user :: "string list" where
  "expected_cols_from_user =
     [''Year'', ''Host_country'', ''Host_city'', ''Country_Name'', ''Country_Code'',
      ''Gold'', ''Silver'', ''Bronze'']"

definition missing_cols :: "frame \<Rightarrow> string list" where
  "missing_cols df_full = filter (\<lambda>col. col \<notin> set (columns df_full)) expected_cols_from_user"

text \<open>Lines 26 to 32: the country name corrected, the years filtered, the total added.\<close>

definition correct_country_name :: "medal_record \<Rightarrow> medal_record" where
  "correct_country_name r =
     r\<lparr>Country_Name := replace_value ''United States'' ''United States of America'' (Country_Name r)\<rparr>"

definition add_total_medals :: "medal_record \<Rightarrow> working_row" where
  "add_total_medals r =
     \<lparr>Year = Year r, Host_country = Host_country r, Host_city = Host_city r,
      Country_Name = Country_Name r, Country_Code = Country_Code r,
      Gold = Gold r, Silver = Silver r, Bronze = Bronze r,
      Total_Medals = Gold r + Silver r + Bronze r\<rparr>"

definition working_table :: "medal_record list \<Rightarrow> working_row list" where
  "working_table df_full =
     map add_total_medals
       (filter (\<lambda>r. Year r \<ge> 1992 \<and> Year r \<le> 2020) (map correct_country_name df_full))"

text \<open>Lines 8 to 32: the working table, or the lines printed before \<^verbatim>\<open>exit()\<close>.\<close>

definition load :: "read_csv_result \<Rightarrow> startup_exit + working_row list" where
  "load res =
     (case res of
        FileNotFoundError \<Rightarrow>
          Inl (Exit [''Error: 'Summer_olympic_Medals.csv' not found. Make sure the file is in the same directory as the script.''])
      | Exception e \<Rightarrow> Inl (Exit [''Error loading CSV: '' @ e])
      | Parsed df_full \<Rightarrow>
          if missing_cols df_full \<noteq> [] then
            Inl (Exit [''Error: The CSV file is missing the following expected columns: ''
                         @ join '', '' (missing_cols df_full),
                       ''Available columns are: '' @ join '', '' (columns df_full)])
          else Inr (working_table (records df_full)))"

subsection \<open>Dropdown options\<close>

text \<open>
  A dropdown value as the callbacks receive it: a string or a number; a cleared
  dropdown sends \<^verbatim>\<open>None\<close>. The medal-type dropdown offers the four names of
  \<^verbatim>\<open>medal_types\<close>, so its value is one of these four columns or \<^verbatim>\<open>None\<close>.
\<close>

datatype dropdown_value = Str string | Num int

datatype medal_col = Col_Gold | Col_Silver | Col_Bronze | Col_Total_Medals

fun medal_name :: "medal_col \<Rightarrow> string" where
  "medal_name Col_Gold = ''Gold''"
| "medal_name Col_Silver = ''Silver''"
| "medal_name Col_Bronze = ''Bronze''"
| "medal_name Col_Total_Medals = ''Total_Medals''"

text \<open>\<^verbatim>\<open>df[medal_col]\<close>: the column of the working table under a medal-type name.\<close>

fun column :: "medal_col \<Rightarrow> working_row \<Rightarrow> int" where
  "column Col_Gold = Gold"
| "column Col_Silver = Silver"
| "column Col_Bronze = Bronze"
| "column Col_Total_Medals = Total_Medals"

definition all_countries :: "working_row list \<Rightarrow> string list" where
  "all_countries df = sort (unique (map Country_Name df))"

definition medal_types :: "medal_col list" where
  "medal_types = [Col_Gold, Col_Silver, Col_Bronze, Col_Total_Medals]"

text \<open>
  The distinct (year, host city, host country) triples in ascending order of the year;
  triples of one year stay in their order of appearance.
\<close>

definition year_host_info :: "working_row list \<Rightarrow> (int \<times> string \<times> string) list" where
  "year_host_info df =
     sort_key fst (unique (map (\<lambda>r. (Year r, Host_city r, Host_country r)) df))"

text \<open>The options of the year dropdown, each a label and a value.\<close>

definition year_options :: "working_row list \<Rightarrow> (string \<times> dropdown_value) list" where
  "year_options df =
     (''All Years (1992-2020)'', Str ''All'') #
     map (\<lambda>(y, city, country). (str_int y @ '' - '' @ city @ '', '' @ country, Num y))
       (year_host_info df)"

definition medal_options :: "(string \<times> medal_col) list" where
  "medal_options = map (\<lambda>medal. (replace_underscore (medal_name medal), medal)) medal_types"

text \<open>The initial value of the country dropdown (line 77).\<close>

definition initial_country :: "working_row list \<Rightarrow> string option" where
  "initial_country df = (case all_countries df of [] \<Rightarrow> None | c # _ \<Rightarrow> Some c)"

subsection \<open>Figures and callbacks\<close>

text \<open>
  A figure is kept as its kind, its title and the table it plots; the pie placeholder
  carries its title and the text of its annotation, the bar chart its marker colour.
\<close>

datatype figure =
    Pie_Placeholder string string
  | Pie string "(string \<times> int) list"
  | Choropleth string "(string \<times> int) list"
  | Area string "((string \<times> int) \<times> int) list"
  | Bar string "(string \<times> int) list" "string option"

text \<open>The exception a callback can raise: a column that the frame does not have.\<close>

datatype py_error = KeyError

text \<open>
  \<^verbatim>\<open>update_pie_chart\<close>: \<^verbatim>\<open>not selected_country\<close> holds for \<^verbatim>\<open>None\<close> and for the
  empty string.
\<close>

definition update_pie_chart :: "working_row list \<Rightarrow> string option \<Rightarrow> py_error + figure" where
  "update_pie_chart df selected_country =
     (case selected_country of
        None \<Rightarrow> Inr (Pie_Placeholder ''Please select a country'' ''No country selected'')
      | Some c \<Rightarrow>
          if c = [] then Inr (Pie_Placeholder ''Please select a country'' ''No country selected'')
          else
            let country_data = filter (\<lambda>r. Country_Name r = c) df in
            if country_data = [] then
              Inr (Pie_Placeholder (''No data for '' @ c @ '' (1992-2020)'') ''No data available'')
            else
              Inr (Pie (''Medal Distribution for '' @ c @ '' (1992-2020)'')
                     [(''Gold'', sum_list (map Gold country_data)),
                      (''Silver'', sum_list (map Silver country_data)),
                      (''Bronze'', sum_list (map Bronze country_data))]))"

text \<open>
  \<^verbatim>\<open>update_map_chart\<close>: with \<^verbatim>\<open>None\<close> for the medal type, the column lookup of
  line 146 raises.
\<close>

definition update_map_chart :: "working_row list \<Rightarrow> medal_col option \<Rightarrow> py_error + figure" where
  "update_map_chart df selected_medal_type =
     (case selected_medal_type of
        None \<Rightarrow> Inl KeyError
      | Some medal_col \<Rightarrow>
          let map_data = groupby_sum Country_Name (column medal_col) df in
          Inr (Choropleth
                 (''Total '' @ replace_underscore (medal_name medal_col) @ '' by Country (1992-2020)'')
                 map_data))"

text \<open>\<^verbatim>\<open>update_area_chart\<close>: the per-year rows of the ten countries with the largest totals.\<close>

definition top_10_countries_overall :: "working_row list \<Rightarrow> medal_col \<Rightarrow> string list" where
  "top_10_countries_overall df medal_col =
     map fst (nlargest 10 snd (groupby_sum Country_Name (column medal_col) df))"

definition update_area_chart :: "working_row list \<Rightarrow> medal_col option \<Rightarrow> py_error + figure" where
  "update_area_chart df selected_medal_type =
     (case selected_medal_type of
        None \<Rightarrow> Inl KeyError
      | Some medal_col \<Rightarrow>
          let df_country_year_medals =
                groupby_sum (\<lambda>r. (Country_Name r, Year r)) (column medal_col) df;
              df_top_10 =
                filter (\<lambda>row. fst (fst row) \<in> set (top_10_countries_overall df medal_col))
                  df_country_year_medals
          in Inr (Area
                    (''Top 10 Countries by '' @ replace_underscore (medal_name medal_col) @ '' (1992-2020)'')
                    df_top_10))"

text \<open>\<^verbatim>\<open>str(selected_year_value)\<close>, the fallback of the bar chart's title.\<close>

fun str_value :: "dropdown_value option \<Rightarrow> string" where
  "str_value None = ''None''"
| "str_value (Some (Str s)) = s"
| "str_value (Some (Num n)) = str_int n"

text \<open>
  Lines 186 to 195 of \<^verbatim>\<open>update_bar_chart\<close>: the rows of the selected year. Comparing
  the year column with a string or with \<^verbatim>\<open>None\<close> selects no row.
\<close>

definition current_df_bar :: "working_row list \<Rightarrow> dropdown_value option \<Rightarrow> working_row list" where
  "current_df_bar df selected_year_value =
     (if selected_year_value \<noteq> Some (Str ''All'')
      then filter (\<lambda>r. Some (Num (Year r)) = selected_year_value) df
      else df)"

definition year_title_segment ::
  "(string \<times> dropdown_value) list \<Rightarrow> dropdown_value option \<Rightarrow> string" where
  "year_title_segment options selected_year_value =
     (if selected_year_value \<noteq> Some (Str ''All'')
      then (case find (\<lambda>item. Some (snd item) = selected_year_value) options of
              Some item \<Rightarrow> fst item
            | None \<Rightarrow> str_value selected_year_value)
      else ''All Years (1992-2020)'')"

fun bar_color_val :: "medal_col \<Rightarrow> string option" where
  "bar_color_val Col_Gold = Some ''gold''"
| "bar_color_val Col_Silver = Some ''silver''"
| "bar_color_val Col_Bronze = Some ''#cd7f32''"
| "bar_color_val Col_Total_Medals = None"

definition update_bar_chart ::
  "working_row list \<Rightarrow> (string \<times> dropdown_value) list \<Rightarrow> medal_col option \<Rightarrow>
   dropdown_value option \<Rightarrow> py_error + figure" where
  "update_bar_chart df options selected_medal_type selected_year_value =
     (case selected_medal_type of
        None \<Rightarrow> Inl KeyError
      | Some medal_col \<Rightarrow>
          let df_grouped_bar =
                nlargest 10 snd
                  (groupby_sum Country_Name (column medal_col)
                     (current_df_bar df selected_year_value))
          in Inr (Bar
                    (''Top 10 Countries by '' @ replace_underscore (medal_name medal_col) @ '' in ''
                       @ year_title_segment options selected_year_value)
                    df_grouped_bar
                    (bar_color_val medal_col)))"

subsection \<open>The running application\<close>

text \<open>
  The objects of the running program live in a store: a list of objects, the address of
  an object being its position. Creating an object appends it; an in-place update of an
  object writes at its address. The module-level names \<^verbatim>\<open>df\<close>, \<^verbatim>\<open>all_countries\<close>,
  \<^verbatim>\<open>medal_types\<close> and \<^verbatim>\<open>year_options\<close> hold addresses. A callback binds only names of
  its own (no callback declares a name \<^verbatim>\<open>global\<close>), so the addresses under the
  module-level names are those that startup bound.
\<close>

datatype obj =
    Raw_Table "medal_record list"
  | Working_Table "working_row list"
  | Sums "(string \<times> int) list"
  | Year_Sums "((string \<times> int) \<times> int) list"
  | Names "string list"
  | Medal_Names "medal_col list"
  | Year_Host "(int \<times> string \<times> string) list"
  | Options "(string \<times> dropdown_value) list"
  | Fig figure

type_synonym heap = "obj list"

record module_names =
  g_df :: nat
  g_all_countries :: nat
  g_medal_types :: nat
  g_year_options :: nat

definition new_obj :: "obj \<Rightarrow> heap \<Rightarrow> nat \<times> heap" where
  "new_obj v h = (length h, h @ [v])"

definition obj_at :: "nat \<Rightarrow> heap \<Rightarrow> obj option" where
  "obj_at a h = (if a < length h then Some (h ! a) else None)"

definition set_obj :: "nat \<Rightarrow> obj \<Rightarrow> heap \<Rightarrow> heap" where
  "set_obj a v h = h[a := v]"

text \<open>
  The in-place updates of the program. At startup: \<^verbatim>\<open>df_full['Country_Name'] = ...\<close>
  (line 26) and \<^verbatim>\<open>df['Total_Medals'] = ...\<close> (line 32). In the callbacks:
  \<^verbatim>\<open>fig.update_layout(annotations=...)\<close>, \<^verbatim>\<open>fig_bar.update_traces(marker_color=...)\<close>,
  and the updates of a figure's styling (\<^verbatim>\<open>update_traces\<close> of the pie,
  \<^verbatim>\<open>update_xaxes\<close> of the area chart), which write the figure and leave what the
  figure model keeps of it.
\<close>

definition set_country_name :: "nat \<Rightarrow> heap \<Rightarrow> heap" where
  "set_country_name a h =
     (case obj_at a h of
        Some (Raw_Table rows) \<Rightarrow> set_obj a (Raw_Table (map correct_country_name rows)) h
      | _ \<Rightarrow> h)"

definition set_total_medals :: "nat \<Rightarrow> heap \<Rightarrow> heap" where
  "set_total_medals a h =
     (case obj_at a h of
        Some (Raw_Table rows) \<Rightarrow> set_obj a (Working_Table (map add_total_medals rows)) h
      | _ \<Rightarrow> h)"

definition update_layout :: "nat \<Rightarrow> string \<Rightarrow> heap \<Rightarrow> heap" where
  "update_layout a text h =
     (case obj_at a h of
        Some (Fig (Pie_Placeholder title _)) \<Rightarrow> set_obj a (Fig (Pie_Placeholder title text)) h
      | _ \<Rightarrow> h)"

definition update_marker_color :: "nat \<Rightarrow> string \<Rightarrow> heap \<Rightarrow> heap" where
  "update_marker_color a color h =
     (case obj_at a h of
        Some (Fig (Bar title rows _)) \<Rightarrow> set_obj a (Fig (Bar title rows (Some color))) h
      | _ \<Rightarrow> h)"

definition update_style :: "nat \<Rightarrow> heap \<Rightarrow> heap" where
  "update_style a h =
     (case obj_at a h of
        Some (Fig f) \<Rightarrow> set_obj a (Fig f) h
      | _ \<Rightarrow> h)"

text \<open>Reading a module-level object of the expected kind.\<close>

definition table_at :: "nat \<Rightarrow> heap \<Rightarrow> working_row list option" where
  "table_at a h = (case obj_at a h of Some (Working_Table df) \<Rightarrow> Some df | _ \<Rightarrow> None)"

definition options_at :: "nat \<Rightarrow> heap \<Rightarrow> (string \<times> dropdown_value) list option" where
  "options_at a h = (case obj_at a h of Some (Options opts) \<Rightarrow> Some opts | _ \<Rightarrow> None)"

text \<open>
  Lines 8 to 42 on the store: the frame read from the file, its country names corrected
  in place, the copy of the rows of 1992 to 2020, the total column added to that copy
  in place, and the three option lists.
\<close>

definition run_startup :: "read_csv_result \<Rightarrow> startup_exit + (module_names \<times> heap)" where
  "run_startup res =
     (case res of
        FileNotFoundError \<Rightarrow>
          Inl (Exit [''Error: 'Summer_olympic_Medals.csv' not found. Make sure the file is in the same directory as the script.''])
      | Exception e \<Rightarrow> Inl (Exit [''Error loading CSV: '' @ e])
      | Parsed frame \<Rightarrow>
          if missing_cols frame \<noteq> [] then
            Inl (Exit [''Error: The CSV file is missing the following expected columns: ''
                         @ join '', '' (missing_cols frame),
                       ''Available columns are: '' @ join '', '' (columns frame)])
          else
            let (df_full, h1) = new_obj (Raw_Table (records frame)) [];
                h2 = set_country_name df_full h1;
                in_years = (case obj_at df_full h2 of
                              Some (Raw_Table rows) \<Rightarrow> filter (\<lambda>r. Year r \<ge> 1992 \<and> Year r \<le> 2020) rows
                            | _ \<Rightarrow> []);
                (df, h3) = new_obj (Raw_Table in_years) h2;
                h4 = set_total_medals df h3;
                table = (case table_at df h4 of Some rows \<Rightarrow> rows | None \<Rightarrow> []);
                (countries, h5) = new_obj (Names (all_countries table)) h4;
                (medals, h6) = new_obj (Medal_Names medal_types) h5;
                (host_info, h7) = new_obj (Year_Host (year_host_info table)) h6;
                (years, h8) = new_obj (Options (year_options table)) h7
            in Inr (\<lparr>g_df = df, g_all_countries = countries, g_medal_types = medals,
                      g_year_options = years\<rparr>, h8))"

text \<open>
  What a callback hands back: the address of its figure, or the exception it raised.
  \<^verbatim>\<open>Ill_Typed\<close> stands for a module-level name that does not hold an object of its
  kind, which startup excludes.
\<close>

datatype outcome = Returned nat | Raised py_error | Ill_Typed

definition run_update_pie_chart :: "module_names \<Rightarrow> string option \<Rightarrow> heap \<Rightarrow> outcome \<times> heap" where
  "run_update_pie_chart g selected_country h =
     (if selected_country = None \<or> selected_country = Some [] then
        let (fig, h1) = new_obj (Fig (Pie_Placeholder ''Please select a country'' [])) h;
            h2 = update_layout fig ''No country selected'' h1
        in (Returned fig, h2)
      else
        case table_at (g_df g) h of
          None \<Rightarrow> (Ill_Typed, h)
        | Some df \<Rightarrow>
            let c = the selected_country;
                rows = filter (\<lambda>r. Country_Name r = c) df;
                (country_data, h1) = new_obj (Working_Table rows) h
            in if rows = [] then
                 let (fig, h2) = new_obj (Fig (Pie_Placeholder (''No data for '' @ c @ '' (1992-2020)'') [])) h1;
                     h3 = update_layout fig ''No data available'' h2
                 in (Returned fig, h3)
               else
                 let counts = [(''Gold'', sum_list (map Gold rows)),
                               (''Silver'', sum_list (map Silver rows)),
                               (''Bronze'', sum_list (map Bronze rows))];
                     (medal_counts_df, h2) = new_obj (Sums counts) h1;
                     (fig_pie, h3) = new_obj (Fig (Pie (''Medal Distribution for '' @ c @ '' (1992-2020)'') counts)) h2;
                     h4 = update_style fig_pie h3
                 in (Returned fig_pie, h4))"

definition run_update_map_chart :: "module_names \<Rightarrow> medal_col option \<Rightarrow> heap \<Rightarrow> outcome \<times> heap" where
  "run_update_map_chart g selected_medal_type h =
     (case table_at (g_df g) h of
        None \<Rightarrow> (Ill_Typed, h)
      | Some df \<Rightarrow>
          (case selected_medal_type of
             None \<Rightarrow> (Raised KeyError, h)
           | Some medal_col \<Rightarrow>
               let rows = groupby_sum Country_Name (column medal_col) df;
                   (map_data, h1) = new_obj (Sums rows) h;
                   (fig_map, h2) =
                     new_obj (Fig (Choropleth
                       (''Total '' @ replace_underscore (medal_name medal_col) @ '' by Country (1992-2020)'')
                       rows)) h1
               in (Returned fig_map, h2)))"

definition run_update_area_chart :: "module_names \<Rightarrow> medal_col option \<Rightarrow> heap \<Rightarrow> outcome \<times> heap" where
  "run_update_area_chart g selected_medal_type h =
     (case table_at (g_df g) h of
        None \<Rightarrow> (Ill_Typed, h)
      | Some df \<Rightarrow>
          (case selected_medal_type of
             None \<Rightarrow> (Raised KeyError, h)
           | Some medal_col \<Rightarrow>
               let year_rows = groupby_sum (\<lambda>r. (Country_Name r, Year r)) (column medal_col) df;
                   (df_country_year_medals, h1) = new_obj (Year_Sums year_rows) h;
                   top = top_10_countries_overall df medal_col;
                   (top_10, h2) = new_obj (Names top) h1;
                   top_rows = filter (\<lambda>row. fst (fst row) \<in> set top) year_rows;
                   (df_top_10, h3) = new_obj (Year_Sums top_rows) h2;
                   (fig_area, h4) =
                     new_obj (Fig (Area
                       (''Top 10 Countries by '' @ replace_underscore (medal_name medal_col) @ '' (1992-2020)'')
                       top_rows)) h3;
                   h5 = update_style fig_area h4
               in (Returned fig_area, h5)))"

definition run_update_bar_chart ::
  "module_names \<Rightarrow> medal_col option \<Rightarrow> dropdown_value option \<Rightarrow> heap \<Rightarrow> outcome \<times> heap" where
  "run_update_bar_chart g selected_medal_type selected_year_value h =
     (case (table_at (g_df g) h, options_at (g_year_options g) h) of
        (Some df, Some opts) \<Rightarrow>
          let (copy, h1) = new_obj (Working_Table df) h;
              (current, h2) =
                (if selected_year_value \<noteq> Some (Str ''All'')
                 then new_obj (Working_Table (filter (\<lambda>r. Some (Num (Year r)) = selected_year_value) df)) h1
                 else (copy, h1));
              rows_of_year = (case table_at current h2 of Some rows \<Rightarrow> rows | None \<Rightarrow> []);
              segment = year_title_segment opts selected_year_value
          in (case selected_medal_type of
                None \<Rightarrow> (Raised KeyError, h2)
              | Some medal_col \<Rightarrow>
                  let grouped = groupby_sum Country_Name (column medal_col) rows_of_year;
                      (df_grouped, h3) = new_obj (Sums grouped) h2;
                      largest = nlargest 10 snd grouped;
                      (df_grouped_bar, h4) = new_obj (Sums largest) h3;
                      (fig_bar, h5) =
                        new_obj (Fig (Bar
                          (''Top 10 Countries by '' @ replace_underscore (medal_name medal_col) @ '' in '' @ segment)
                          largest None)) h4;
                      h6 = (case bar_color_val medal_col of
                              Some color \<Rightarrow> update_marker_color fig_bar color h5
                            | None \<Rightarrow> h5)
                  in (Returned fig_bar, h6))
      | _ \<Rightarrow> (Ill_Typed, h))"

datatype callback =
    Update_Pie "string option"
  | Update_Map "medal_col option"
  | Update_Area "medal_col option"
  | Update_Bar "medal_col option" "dropdown_value option"

fun run_callback :: "module_names \<Rightarrow> callback \<Rightarrow> heap \<Rightarrow> outcome \<times> heap" where
  "run_callback g (Update_Pie c) h = run_update_pie_chart g c h"
| "run_callback g (Update_Map m) h = run_update_map_chart g m h"
| "run_callback g (Update_Area m) h = run_update_area_chart g m h"
| "run_callback g (Update_Bar m y) h = run_update_bar_chart g m y h"

text \<open>The server answers one callback after the other, each on the store the last one left.\<close>

fun run_callbacks :: "module_names \<Rightarrow> callback list \<Rightarrow> heap \<Rightarrow> outcome list \<times> heap" where
  "run_callbacks g [] h = ([], h)"
| "run_callbacks g (c # cs) h =
     (let (r, h1) = run_callback g c h; (rs, h2) = run_callbacks g cs h1 in (r # rs, h2))"

text \<open>A callback's outcome on the store against the figure or exception of the callback.\<close>

definition agrees :: "outcome \<times> heap \<Rightarrow> py_error + figure \<Rightarrow> bool" where
  "agrees r expected =
     (case fst r of
        Returned a \<Rightarrow> (case obj_at a (snd r) of Some (Fig f) \<Rightarrow> expected = Inr f | _ \<Rightarrow> False)
      | Raised e \<Rightarrow> expected = Inl e
      | Ill_Typed \<Rightarrow> False)"

text \<open>The figure or exception of a callback, from the working table and the year options.\<close>

fun callback_result ::
  "working_row list \<Rightarrow> (string \<times> dropdown_value) list \<Rightarrow> callback \<Rightarrow> py_error + figure" where
  "callback_result df opts (Update_Pie c) = update_pie_chart df c"
| "callback_result df opts (Update_Map m) = update_map_chart df m"
| "callback_result df opts (Update_Area m) = update_area_chart df m"
| "callback_result df opts (Update_Bar m y) = update_bar_chart df opts m y"

subsection \<open>Sample data\<close>

text \<open>
  A small medals file on which the definitions are run: two countries, one row outside
  the years 1992 to 2020, and the country name that the loader corrects.
\<close>

definition sample_records :: "medal_record list" where
  "sample_records =
     [\<lparr>Year = 1996, Host_country = ''United States'', Host_city = ''Atlanta'',
       Country_Name = ''United States'', Country_Code = ''USA'',
       Gold = 44, Silver = 32, Bronze = 25\<rparr>,
      \<lparr>Year = 1988, Host_country = ''South Korea'', Host_city = ''Seoul'',
       Country_Name = ''Kenya'', Country_Code = ''KEN'',
       Gold = 5, Silver = 2, Bronze = 2\<rparr>,
      \<lparr>Year = 1996, Host_country = ''United States'', Host_city = ''Atlanta'',
       Country_Name = ''Cuba'', Country_Code = ''CUB'',
       Gold = 9, Silver = 8, Bronze = 8\<rparr>,
      \<lparr>Year = 2000, Host_country = ''Australia'', Host_city = ''Sydney'',
       Country_Name = ''Cuba'', Country_Code = ''CUB'',
       Gold = 11, Silver = 11, Bronze = 7\<rparr>]"

definition sample_frame :: frame where
  "sample_frame = \<lparr>columns = expected_cols_from_user, records = sample_records\<rparr>"

definition sample_df :: "working_row list" where
  "sample_df = working_table sample_records"

text \<open>A file without the medal columns of silver and bronze.\<close>

definition short_frame :: frame where
  "short_frame =
     \<lparr>columns = [''Year'', ''Host_country'', ''Host_city'', ''Country_Name'', ''Country_Code'', ''Gold''],
      records = []\<rparr>"

text \<open>Twelve countries in one year, two of them with equal gold counts.\<close>

definition games_row :: "string \<times> int \<Rightarrow> medal_record" where
  "games_row cg =
     \<lparr>Year = 2012, Host_country = ''United Kingdom'', Host_city = ''London'',
      Country_Name = fst cg, Country_Code = fst cg,
      Gold = snd cg, Silver = 0, Bronze = 1\<rparr>"

definition twelve_df :: "working_row list" where
  "twelve_df =
     working_table (map games_row
       [(''A'', 3), (''B'', 12), (''C'', 7), (''D'', 1), (''E'', 9), (''F'', 4),
        (''G'', 8), (''H'', 2), (''I'', 6), (''J'', 1), (''K'', 10), (''L'', 5)])"

text \<open>A file with the eight columns and no row, and the stores that startup builds.\<close>

definition header_frame :: frame where
  "header_frame = \<lparr>columns = expected_cols_from_user, records = []\<rparr>"

definition started_names :: module_names where
  "started_names = \<lparr>g_df = 1, g_all_countries = 2, g_medal_types = 3, g_year_options = 5\<rparr>"

definition header_heap :: heap where
  "header_heap =
     [Raw_Table [], Working_Table [], Names [],
      Medal_Names [Col_Gold, Col_Silver, Col_Bronze, Col_Total_Medals],
      Year_Host [], Options [(''All Years (1992-2020)'', Str ''All'')]]"

definition sample_heap :: heap where
  "sample_heap =
     [Raw_Table (map correct_country_name sample_records), Working_Table sample_df,
      Names [''Cuba'', ''United States of America''],
      Medal_Names [Col_Gold, Col_Silver, Col_Bronze, Col_Total_Medals],
      Year_Host [(1996, ''Atlanta'', ''United States''), (2000, ''Sydney'', ''Australia'')],
      Options [(''All Years (1992-2020)'', Str ''All''),
               (''1996 - Atlanta, United States'', Num 1996),
               (''2000 - Sydney, Australia'', Num 2000)]]"

definition sample_calls :: "callback list" where
  "sample_calls =
     [Update_Pie (Some ''Cuba''), Update_Pie None, Update_Map None, Update_Area (Some Col_Gold),
      Update_Bar (Some Col_Bronze) (Some (Num 1996)), Update_Bar None (Some (Num 1996))]"

section \<open>Properties\<close>

subsection \<open>Data-frame operations\<close>

lemma set_unique [simp]: "set (unique xs) = set xs"
  by (induction xs rule: unique.induct) auto

lemma distinct_unique [simp]: "distinct (unique xs)"
  by (induction xs rule: unique.induct) auto

lemma groupby_sum_keys: "map fst (groupby_sum key col rows) = sort (unique (map key rows))"
  by (simp add: groupby_sum_def comp_def)

lemma groupby_sum_distinct: "distinct (map fst (groupby_sum key col rows))"
  by (simp add: groupby_sum_keys)

lemma groupby_sum_key_set: "fst ` set (groupby_sum key col rows) = key ` set rows"
proof -
  have "fst ` set (groupby_sum key col rows) = set (map fst (groupby_sum key col rows))"
    by simp
  also have "\<dots> = key ` set rows"
    by (simp only: groupby_sum_keys set_sort set_unique set_map)
  finally show ?thesis .
qed

lemma groupby_sum_length: "length (groupby_sum key col rows) = card (key ` set rows)"
proof -
  have "length (groupby_sum key col rows) = length (map fst (groupby_sum key col rows))"
    by simp
  also have "\<dots> = card (set (map fst (groupby_sum key col rows)))"
    using groupby_sum_distinct [of key col rows] by (simp only: distinct_card)
  also have "\<dots> = card (key ` set rows)"
    using groupby_sum_key_set [of key col rows] by simp
  finally show ?thesis .
qed

lemma groupby_sum_value:
  "kv \<in> set (groupby_sum key col rows) \<Longrightarrow>
   snd kv = sum_list (map col (filter (\<lambda>r. key r = fst kv) rows))"
  by (auto simp: groupby_sum_def)

lemma nlargest_length: "length (nlargest n col rows) = min n (length rows)"
  by (simp add: nlargest_def)

lemma nlargest_subset: "set (nlargest n col rows) \<subseteq> set rows"
  using set_take_subset [of n "sort_key (\<lambda>r. - col r) rows"] by (simp add: nlargest_def)

lemma nlargest_descending: "sorted_wrt (\<lambda>a b. col a \<ge> col b) (nlargest n col rows)"
proof -
  have "sorted (map (\<lambda>r. - col r) (sort_key (\<lambda>r. - col r) rows))"
    by (rule sorted_sort_key)
  then have "sorted_wrt (\<lambda>a b. col a \<ge> col b) (sort_key (\<lambda>r. - col r) rows)"
    by (simp add: sorted_wrt_map)
  then show ?thesis
    unfolding nlargest_def by (rule sorted_wrt_take)
qed

lemma nlargest_top:
  assumes "a \<in> set (nlargest n col rows)" and "b \<in> set rows" and "b \<notin> set (nlargest n col rows)"
  shows "col b \<le> col a"
proof -
  let ?ys = "sort_key (\<lambda>r. - col r) rows"
  have "sorted_wrt (\<lambda>a b. col a \<ge> col b) (take n ?ys @ drop n ?ys)"
    using sorted_sort_key [of "\<lambda>r. - col r" rows] by (simp add: sorted_wrt_map)
  then have *: "\<forall>x\<in>set (take n ?ys). \<forall>y\<in>set (drop n ?ys). col y \<le> col x"
    unfolding sorted_wrt_append by blast
  have "b \<in> set (take n ?ys @ drop n ?ys)"
    using assms(2) by simp
  then have "b \<in> set (drop n ?ys)"
    using assms(3) unfolding nlargest_def set_append by blast
  with * assms(1) show ?thesis
    unfolding nlargest_def by blast
qed

lemma nlargest_distinct:
  assumes "distinct (map g rows)"
  shows "distinct (map g (nlargest n col rows))"
proof -
  let ?ys = "sort_key (\<lambda>r. - col r) rows"
  from assms have "distinct ?ys" and "inj_on g (set ?ys)"
    by (simp_all add: distinct_map)
  moreover have "set (take n ?ys) \<subseteq> set ?ys"
    by (rule set_take_subset)
  ultimately have "distinct (take n ?ys)" and "inj_on g (set (take n ?ys))"
    by (auto intro: inj_on_subset)
  then show ?thesis
    by (simp add: nlargest_def distinct_map)
qed

subsection \<open>The working table\<close>

lemma sample_df_eval:
  "sample_df =
     [\<lparr>Year = 1996, Host_country = ''United States'', Host_city = ''Atlanta'',
       Country_Name = ''United States of America'', Country_Code = ''USA'',
       Gold = 44, Silver = 32, Bronze = 25, Total_Medals = 101\<rparr>,
      \<lparr>Year = 1996, Host_country = ''United States'', Host_city = ''Atlanta'',
       Country_Name = ''Cuba'', Country_Code = ''CUB'',
       Gold = 9, Silver = 8, Bronze = 8, Total_Medals = 25\<rparr>,
      \<lparr>Year = 2000, Host_country = ''Australia'', Host_city = ''Sydney'',
       Country_Name = ''Cuba'', Country_Code = ''CUB'',
       Gold = 11, Silver = 11, Bronze = 7, Total_Medals = 29\<rparr>]"
  by (simp add: sample_df_def sample_records_def working_table_def correct_country_name_def
      add_total_medals_def replace_value_def)

lemma load_sample_frame: "load (Parsed sample_frame) = Inr sample_df"
  by (simp add: load_def sample_frame_def missing_cols_def expected_cols_from_user_def
      sample_df_def)

text \<open>
  C7. When the file has loaded, every row of the working table has a year from 1992 to
  2020 (both inclusive) and a total equal to the sum of its gold, silver and bronze
  counts, and no row is named \<^verbatim>\<open>United States\<close>: the country names of the table are
  those of the source rows of these years, with \<^verbatim>\<open>United States\<close> turned into
  \<^verbatim>\<open>United States of America\<close>.
\<close>

theorem working_table_rows:
  assumes "load (Parsed df_full) = Inr df"
  shows "(\<forall>r\<in>set df. 1992 \<le> Year r \<and> Year r \<le> 2020 \<and>
            Total_Medals r = Gold r + Silver r + Bronze r \<and>
            Country_Name r \<noteq> ''United States'') \<and>
         map Country_Name df =
           map (\<lambda>r. if Country_Name r = ''United States'' then ''United States of America''
                     else Country_Name r)
             (filter (\<lambda>r. 1992 \<le> Year r \<and> Year r \<le> 2020) (records df_full))"
proof -
  from assms have df: "df = working_table (records df_full)"
    by (simp add: load_def split: if_splits)
  have rows: "\<forall>r\<in>set df. 1992 \<le> Year r \<and> Year r \<le> 2020 \<and>
            Total_Medals r = Gold r + Silver r + Bronze r \<and>
            Country_Name r \<noteq> ''United States''"
    unfolding df working_table_def
    by (auto simp: add_total_medals_def correct_country_name_def replace_value_def
        split: if_splits)
  have names: "map Country_Name df =
           map (\<lambda>r. if Country_Name r = ''United States'' then ''United States of America''
                     else Country_Name r)
             (filter (\<lambda>r. 1992 \<le> Year r \<and> Year r \<le> 2020) (records df_full))"
    unfolding df working_table_def
    by (simp add: filter_map comp_def add_total_medals_def correct_country_name_def
        replace_value_def)
  from rows names show ?thesis by blast
qed

theorem working_table_rows_witness:
  "load (Parsed sample_frame) = Inr sample_df \<and>
   map Year sample_df = [1996, 1996, 2000] \<and>
   map Total_Medals sample_df = [101, 25, 29] \<and>
   map Country_Name sample_df = [''United States of America'', ''Cuba'', ''Cuba''] \<and>
   list_all (\<lambda>r. 1992 \<le> Year r \<and> Year r \<le> 2020 \<and>
            Total_Medals r = Gold r + Silver r + Bronze r \<and>
            Country_Name r \<noteq> ''United States'') sample_df"
proof -
  have h: "load (Parsed sample_frame) = Inr sample_df"
    by (rule load_sample_frame)
  from working_table_rows [OF h] have "list_all (\<lambda>r. 1992 \<le> Year r \<and> Year r \<le> 2020 \<and>
            Total_Medals r = Gold r + Silver r + Bronze r \<and>
            Country_Name r \<noteq> ''United States'') sample_df"
    by (simp add: list_all_iff)
  with h show ?thesis
    by (simp add: sample_df_eval)
qed

subsection \<open>Grouping and the ten largest\<close>

lemma sort_unique: "sort (unique xs) = sorted_list_of_set (set xs)"
proof -
  have "sorted_list_of_set (set (sort (unique xs))) = sort (unique xs)"
    by (rule sorted_list_of_set.idem_if_sorted_distinct) simp_all
  then show ?thesis by simp
qed

lemma top_rows_length:
  "length (nlargest n snd (groupby_sum key col T)) = min n (card (key ` set T))"
  by (simp add: nlargest_length groupby_sum_length)

lemma top_rows_distinct: "distinct (map fst (nlargest n snd (groupby_sum key col T)))"
  by (rule nlargest_distinct) (rule groupby_sum_distinct)

lemma top_rows_descending: "sorted_wrt (\<ge>) (map snd (nlargest n snd (groupby_sum key col T)))"
  using nlargest_descending [of snd n "groupby_sum key col T"] by (simp add: sorted_wrt_map)

lemma top_rows_member:
  assumes "kv \<in> set (nlargest n snd (groupby_sum key col T))"
  shows "fst kv \<in> key ` set T"
    and "snd kv = sum_list (map col (filter (\<lambda>r. key r = fst kv) T))"
proof -
  from assms have kv: "kv \<in> set (groupby_sum key col T)"
    using nlargest_subset [of n snd "groupby_sum key col T"] by blast
  then have "fst kv \<in> fst ` set (groupby_sum key col T)"
    by (rule imageI)
  then show "fst kv \<in> key ` set T"
    by (simp only: groupby_sum_key_set)
  from kv show "snd kv = sum_list (map col (filter (\<lambda>r. key r = fst kv) T))"
    by (rule groupby_sum_value)
qed

lemma top_rows_largest:
  assumes "kv \<in> set (nlargest n snd (groupby_sum key col T))"
    and "k \<in> key ` set T"
    and "k \<notin> fst ` set (nlargest n snd (groupby_sum key col T))"
  shows "sum_list (map col (filter (\<lambda>r. key r = k) T)) \<le> snd kv"
proof -
  from assms(2) have "k \<in> fst ` set (groupby_sum key col T)"
    by (simp only: groupby_sum_key_set)
  then obtain b where b: "b \<in> set (groupby_sum key col T)" and k: "k = fst b"
    by blast
  from assms(3) k have "b \<notin> set (nlargest n snd (groupby_sum key col T))"
    by blast
  with assms(1) b have "snd b \<le> snd kv"
    by (rule nlargest_top)
  moreover from b have "snd b = sum_list (map col (filter (\<lambda>r. key r = fst b) T))"
    by (rule groupby_sum_value)
  ultimately show ?thesis
    using k by simp
qed

subsection \<open>The sample data, evaluated\<close>

lemma twelve_countries: "map Country_Name twelve_df =
  [''A'', ''B'', ''C'', ''D'', ''E'', ''F'', ''G'', ''H'', ''I'', ''J'', ''K'', ''L'']"
  by (simp add: twelve_df_def working_table_def games_row_def correct_country_name_def
      add_total_medals_def replace_value_def)

lemma twelve_card: "card (Country_Name ` set twelve_df) = 12"
proof -
  have "Country_Name ` set twelve_df = set (map Country_Name twelve_df)" by simp
  also have "card \<dots> = length (map Country_Name twelve_df)"
    by (rule distinct_card) (simp add: twelve_countries)
  finally show ?thesis by (simp add: twelve_countries)
qed

lemma twelve_area: "update_area_chart twelve_df (Some Col_Gold) =
  Inr (Area ''Top 10 Countries by Gold (1992-2020)''
       [((''A'', 2012), 3), ((''B'', 2012), 12), ((''C'', 2012), 7),
        ((''E'', 2012), 9), ((''F'', 2012), 4), ((''G'', 2012), 8),
        ((''H'', 2012), 2), ((''I'', 2012), 6), ((''K'', 2012), 10),
        ((''L'', 2012), 5)])"
  by code_simp

lemma twelve_bar: "update_bar_chart twelve_df (year_options twelve_df) (Some Col_Gold) (Some (Str ''All'')) =
  Inr (Bar ''Top 10 Countries by Gold in All Years (1992-2020)''
       [(''B'', 12), (''K'', 10), (''E'', 9), (''G'', 8), (''C'', 7),
        (''I'', 6), (''L'', 5), (''F'', 4), (''A'', 3), (''H'', 2)]
       (Some ''gold''))"
  by code_simp

lemma sample_bar: "update_bar_chart sample_df (year_options sample_df) (Some Col_Total_Medals) (Some (Num 2000)) =
  Inr (Bar ''Top 10 Countries by Total Medals in 2000 - Sydney, Australia''
       [(''Cuba'', 29)] None)"
  by code_simp

lemma sample_map: "update_map_chart sample_df (Some Col_Silver) =
  Inr (Choropleth ''Total Silver by Country (1992-2020)'' [(''Cuba'', 19), (''United States of America'', 32)])"
  by code_simp

subsection \<open>Load failures\<close>

text \<open>
  C8. A file that was fetched and parsed but lacks one or more of the eight expected
  columns ends the startup: the loader prints one line that names the missing columns,
  which are exactly the expected columns absent from the header, in the order of the
  expected list, and a second line with the columns of the file, and exits. An
  exception of \<^verbatim>\<open>read_csv\<close> ends the startup with a line that carries the text of
  the exception; a \<^verbatim>\<open>FileNotFoundError\<close> ends it with the line saying that the file
  was not found.
\<close>

theorem load_failures:
  "(\<not> set expected_cols_from_user \<subseteq> set (columns df_full) \<longrightarrow>
      load (Parsed df_full) =
        Inl (Exit [''Error: The CSV file is missing the following expected columns: ''
                     @ join '', '' (missing_cols df_full),
                   ''Available columns are: '' @ join '', '' (columns df_full)]) \<and>
      missing_cols df_full \<noteq> [] \<and>
      distinct (missing_cols df_full) \<and>
      set (missing_cols df_full) = set expected_cols_from_user - set (columns df_full)) \<and>
   load (Exception e) = Inl (Exit [''Error loading CSV: '' @ e]) \<and>
   load FileNotFoundError =
     Inl (Exit [''Error: 'Summer_olympic_Medals.csv' not found. Make sure the file is in the same directory as the script.''])"
proof -
  have set_eq: "set (missing_cols df_full) = set expected_cols_from_user - set (columns df_full)"
    by (auto simp: missing_cols_def)
  have dist: "distinct (missing_cols df_full)"
    by (simp add: missing_cols_def expected_cols_from_user_def)
  have ne: "missing_cols df_full \<noteq> []"
    if "\<not> set expected_cols_from_user \<subseteq> set (columns df_full)"
  proof
    assume "missing_cols df_full = []"
    then have "set (missing_cols df_full) = {}" by simp
    with set_eq that show False by auto
  qed
  show ?thesis
    using set_eq dist ne by (simp add: load_def)
qed

theorem load_failures_witness:
  "load (Parsed short_frame) =
     Inl (Exit [''Error: The CSV file is missing the following expected columns: Silver, Bronze'',
                ''Available columns are: Year, Host_country, Host_city, Country_Name, Country_Code, Gold'']) \<and>
   missing_cols short_frame = [''Silver'', ''Bronze''] \<and>
   load (Exception ''HTTP Error 404: Not Found'') =
     Inl (Exit [''Error loading CSV: HTTP Error 404: Not Found''])"
proof -
  have m: "missing_cols short_frame = [''Silver'', ''Bronze'']"
    by (simp add: missing_cols_def short_frame_def expected_cols_from_user_def)
  have h: "\<not> set expected_cols_from_user \<subseteq> set (columns short_frame)"
    by (simp add: short_frame_def expected_cols_from_user_def)
  from load_failures [of short_frame "''HTTP Error 404: Not Found''"] h m show ?thesis
    by (simp add: short_frame_def)
qed

subsection \<open>The country dropdown\<close>

text \<open>
  C10. The options of the country dropdown are the distinct country names of the
  working table in ascending order. When the table has rows, the initial value of the
  dropdown is the smallest name; when it has none, the initial value is \<^verbatim>\<open>None\<close>.
\<close>

theorem country_options:
  "all_countries df = sorted_list_of_set (Country_Name ` set df) \<and>
   sorted (all_countries df) \<and> distinct (all_countries df) \<and>
   set (all_countries df) = Country_Name ` set df \<and>
   (df \<noteq> [] \<longrightarrow> initial_country df = Some (Min (Country_Name ` set df))) \<and>
   (df = [] \<longrightarrow> initial_country df = None)"
proof -
  have eq: "all_countries df = sorted_list_of_set (Country_Name ` set df)"
    by (simp add: all_countries_def sort_unique)
  have init: "initial_country df = Some (Min (Country_Name ` set df))" if "df \<noteq> []"
  proof -
    from that have "Country_Name ` set df \<noteq> {}" by simp
    then have "sorted_list_of_set (Country_Name ` set df) =
        Min (Country_Name ` set df) #
          sorted_list_of_set (Country_Name ` set df - {Min (Country_Name ` set df)})"
      by (intro sorted_list_of_set_nonempty) simp_all
    then show ?thesis
      by (simp add: initial_country_def eq)
  qed
  have none: "initial_country df = None" if "df = []"
    using that by (simp add: initial_country_def all_countries_def)
  have sorted: "sorted (all_countries df)"
    by (simp add: all_countries_def)
  have dist: "distinct (all_countries df)"
    by (simp add: all_countries_def)
  have set: "set (all_countries df) = Country_Name ` set df"
    by (simp add: all_countries_def)
  from eq sorted dist set init none show ?thesis
    by blast
qed

theorem country_options_witness:
  "all_countries sample_df = [''Cuba'', ''United States of America''] \<and>
   sample_df \<noteq> [] \<and>
   initial_country sample_df = Some ''Cuba'' \<and>
   Min (Country_Name ` set sample_df) = ''Cuba'' \<and>
   initial_country [] = None"
proof -
  have c: "all_countries sample_df = [''Cuba'', ''United States of America'']"
    by (simp add: all_countries_def sample_df_eval)
  have i: "initial_country sample_df = Some ''Cuba''"
    by (simp add: initial_country_def c)
  have n: "sample_df \<noteq> []"
    by (simp add: sample_df_eval)
  from country_options [of sample_df] country_options [of "[]"] c i n show ?thesis
    by simp
qed

subsection \<open>The module-level objects stay as startup built them\<close>

text \<open>
  Creating an object and updating an object at a later address leave the store up to
  that address as it was.
\<close>

lemma take_set_obj: "n \<le> a \<Longrightarrow> take n (set_obj a v h) = take n h"
  by (simp add: set_obj_def)

lemma length_set_obj [simp]: "length (set_obj a v h) = length h"
  by (simp add: set_obj_def)

lemma take_update_layout: "n \<le> a \<Longrightarrow> take n (update_layout a t h) = take n h"
  by (simp add: update_layout_def take_set_obj split: option.splits obj.splits figure.splits)

lemma length_update_layout [simp]: "length (update_layout a t h) = length h"
  by (simp add: update_layout_def split: option.splits obj.splits figure.splits)

lemma take_update_marker_color: "n \<le> a \<Longrightarrow> take n (update_marker_color a c h) = take n h"
  by (simp add: update_marker_color_def take_set_obj split: option.splits obj.splits figure.splits)

lemma length_update_marker_color [simp]: "length (update_marker_color a c h) = length h"
  by (simp add: update_marker_color_def split: option.splits obj.splits figure.splits)

lemma take_update_style: "n \<le> a \<Longrightarrow> take n (update_style a h) = take n h"
  by (simp add: update_style_def take_set_obj split: option.splits obj.splits)

lemma length_update_style [simp]: "length (update_style a h) = length h"
  by (simp add: update_style_def split: option.splits obj.splits)

lemmas take_updates = take_update_layout take_update_marker_color take_update_style

lemma pie_keeps: "take (length h) (snd (run_update_pie_chart g c h)) = h"
  by (simp add: run_update_pie_chart_def Let_def split_beta new_obj_def take_updates
      split: option.splits)

lemma map_keeps: "take (length h) (snd (run_update_map_chart g m h)) = h"
  by (simp add: run_update_map_chart_def Let_def split_beta new_obj_def split: option.splits)

lemma area_keeps: "take (length h) (snd (run_update_area_chart g m h)) = h"
  by (simp add: run_update_area_chart_def Let_def split_beta new_obj_def take_updates
      split: option.splits)

lemma bar_keeps: "take (length h) (snd (run_update_bar_chart g m y h)) = h"
  by (simp add: run_update_bar_chart_def Let_def split_beta new_obj_def take_updates
      split: option.splits)

lemma callback_keeps: "take (length h) (snd (run_callback g c h)) = h"
  by (cases c) (simp_all add: pie_keeps map_keeps area_keeps bar_keeps)

lemma keeps_length: "take (length h) h' = h \<Longrightarrow> length h \<le> length h'"
  by (metis length_take min.cobounded1)

lemma keeps_trans:
  assumes "take (length h) h1 = h" and "take (length h1) h2 = h1"
  shows "take (length h) h2 = h"
proof -
  from assms(1) have "length h \<le> length h1" by (rule keeps_length)
  then have "take (length h) h2 = take (length h) (take (length h1) h2)"
    by simp
  with assms show ?thesis by simp
qed

lemma callbacks_keep: "take (length h) (snd (run_callbacks g cs h)) = h"
proof (induction cs arbitrary: h)
  case Nil
  show ?case by simp
next
  case (Cons c cs)
  have step: "take (length h) (snd (run_callback g c h)) = h"
    by (rule callback_keeps)
  have rest: "take (length (snd (run_callback g c h)))
      (snd (run_callbacks g cs (snd (run_callback g c h)))) = snd (run_callback g c h)"
    by (rule Cons.IH)
  from step rest have "take (length h) (snd (run_callbacks g cs (snd (run_callback g c h)))) = h"
    by (rule keeps_trans)
  then show ?case
    by (simp add: split_beta Let_def)
qed

lemma obj_at_kept:
  assumes "take (length h) h' = h" and "a < length h"
  shows "obj_at a h' = obj_at a h"
proof -
  from assms(1) have "length h \<le> length h'" by (rule keeps_length)
  moreover from assms have "h' ! a = h ! a"
    by (metis nth_take)
  ultimately show ?thesis
    using assms(2) by (simp add: obj_at_def)
qed

text \<open>
  Reading and writing in a store that has grown.
\<close>

lemma obj_at_append:
  "obj_at a (h @ vs) = (if a < length h then obj_at a h else obj_at (a - length h) vs)"
  by (auto simp: obj_at_def nth_append)

lemma obj_at_Nil: "obj_at a [] = None"
  by (simp add: obj_at_def)

lemma obj_at_Cons: "obj_at a (v # vs) = (if a = 0 then Some v else obj_at (a - 1) vs)"
  by (cases a) (simp_all add: obj_at_def)

lemma set_obj_append:
  "set_obj a v (h @ vs) = (if a < length h then set_obj a v h @ vs else h @ set_obj (a - length h) v vs)"
  by (simp add: set_obj_def list_update_append)

lemma set_obj_Cons: "set_obj a v (w # ws) = (if a = 0 then v # ws else w # set_obj (a - 1) v ws)"
  by (cases a) (simp_all add: set_obj_def)

lemmas store_simps = new_obj_def obj_at_append obj_at_Cons obj_at_Nil set_obj_append set_obj_Cons

lemma table_at_append_old [simp]: "table_at a h = Some df \<Longrightarrow> table_at a (h @ vs) = Some df"
  by (auto simp: table_at_def obj_at_def nth_append split: if_splits)

text \<open>
  Startup leaves the working table and the three option lists in the store, under the
  four module-level names.
\<close>

lemma run_startup_objects:
  assumes "run_startup res = Inr (g, h)"
  shows "\<exists>df. load res = Inr df \<and>
           g_df g < length h \<and> g_all_countries g < length h \<and>
           g_medal_types g < length h \<and> g_year_options g < length h \<and>
           obj_at (g_df g) h = Some (Working_Table df) \<and>
           obj_at (g_all_countries g) h = Some (Names (all_countries df)) \<and>
           obj_at (g_medal_types g) h =
             Some (Medal_Names [Col_Gold, Col_Silver, Col_Bronze, Col_Total_Medals]) \<and>
           obj_at (g_year_options g) h = Some (Options (year_options df))"
proof (cases res)
  case FileNotFoundError
  with assms show ?thesis by (simp add: run_startup_def)
next
  case (Exception e)
  with assms show ?thesis by (simp add: run_startup_def)
next
  case (Parsed frame)
  with assms have ok: "missing_cols frame = []"
    by (simp add: run_startup_def split: if_splits)
  with Parsed have load: "load res = Inr (working_table (records frame))"
    by (simp add: load_def)
  from assms Parsed ok have
    "g = \<lparr>g_df = 1, g_all_countries = 2, g_medal_types = 3, g_year_options = 5\<rparr>"
    and "h = [Raw_Table (map correct_country_name (records frame)),
              Working_Table (working_table (records frame)),
              Names (all_countries (working_table (records frame))),
              Medal_Names medal_types,
              Year_Host (year_host_info (working_table (records frame))),
              Options (year_options (working_table (records frame)))]"
    by (auto simp: run_startup_def new_obj_def obj_at_def set_obj_def set_country_name_def
        set_total_medals_def table_at_def working_table_def Let_def)
  with load show ?thesis
    by (simp add: obj_at_def medal_types_def)
qed

text \<open>
  On a store whose module-level names hold the working table and the year options, each
  callback hands back the figure, or raises the exception, of its function above.
\<close>

lemma pie_agrees:
  assumes "table_at (g_df g) h = Some df"
  shows "agrees (run_update_pie_chart g c h) (update_pie_chart df c)"
  using assms
  by (cases c)
    (simp_all add: agrees_def run_update_pie_chart_def update_pie_chart_def Let_def split_beta
      store_simps update_layout_def update_style_def)

lemma map_agrees:
  assumes "table_at (g_df g) h = Some df"
  shows "agrees (run_update_map_chart g m h) (update_map_chart df m)"
  using assms
  by (cases m)
    (simp_all add: agrees_def run_update_map_chart_def update_map_chart_def Let_def split_beta
      store_simps)

lemma area_agrees:
  assumes "table_at (g_df g) h = Some df"
  shows "agrees (run_update_area_chart g m h) (update_area_chart df m)"
  using assms
  by (cases m)
    (simp_all add: agrees_def run_update_area_chart_def update_area_chart_def Let_def split_beta
      store_simps update_style_def)

lemma bar_agrees:
  assumes "table_at (g_df g) h = Some df" and "options_at (g_year_options g) h = Some opts"
  shows "agrees (run_update_bar_chart g m y h) (update_bar_chart df opts m y)"
proof (cases m)
  case None
  with assms show ?thesis
    by (simp add: agrees_def run_update_bar_chart_def update_bar_chart_def Let_def split_beta
        new_obj_def)
next
  case (Some medal_col)
  show ?thesis
    using assms Some
    by (cases "bar_color_val medal_col")
      (simp_all add: agrees_def run_update_bar_chart_def update_bar_chart_def Let_def split_beta,
       simp_all add: store_simps table_at_def current_df_bar_def update_marker_color_def)
qed

lemma callback_agrees:
  assumes "table_at (g_df g) h = Some df" and "options_at (g_year_options g) h = Some opts"
  shows "agrees (run_callback g c h) (callback_result df opts c)"
  using assms by (cases c) (simp_all add: pie_agrees map_agrees area_agrees bar_agrees)

lemma run_startup_sample: "run_startup (Parsed sample_frame) = Inr (started_names, sample_heap)"
  by (simp add: run_startup_def sample_frame_def missing_cols_def expected_cols_from_user_def
      started_names_def sample_heap_def store_simps set_country_name_def set_total_medals_def
      table_at_def sample_df_def working_table_def all_countries_def medal_types_def
      sample_df_eval [unfolded sample_df_def working_table_def])
    code_simp

text \<open>
  C9. Startup builds the working table once, with the country and year option
  lists computed from it and the medal-type list as the fixed names Gold, Silver, Bronze
  and Total_Medals. After any sequence of callbacks, with any dropdown values, every
  object that startup left in the store is as it was, so the working table and the
  three option lists are unchanged: the callbacks create objects of their own and
  update in place only figures that they created. A further callback still answers
  from the working table that startup built.
\<close>

theorem module_objects_unchanged:
  assumes "run_startup res = Inr (g, h)"
  shows "\<exists>df opts.
           load res = Inr df \<and> opts = year_options df \<and>
           obj_at (g_df g) h = Some (Working_Table df) \<and>
           obj_at (g_all_countries g) h = Some (Names (all_countries df)) \<and>
           obj_at (g_medal_types g) h =
             Some (Medal_Names [Col_Gold, Col_Silver, Col_Bronze, Col_Total_Medals]) \<and>
           obj_at (g_year_options g) h = Some (Options opts) \<and>
           take (length h) (snd (run_callbacks g cs h)) = h \<and>
           obj_at (g_df g) (snd (run_callbacks g cs h)) = Some (Working_Table df) \<and>
           obj_at (g_all_countries g) (snd (run_callbacks g cs h)) = Some (Names (all_countries df)) \<and>
           obj_at (g_medal_types g) (snd (run_callbacks g cs h)) =
             Some (Medal_Names [Col_Gold, Col_Silver, Col_Bronze, Col_Total_Medals]) \<and>
           obj_at (g_year_options g) (snd (run_callbacks g cs h)) = Some (Options opts) \<and>
           agrees (run_callback g c (snd (run_callbacks g cs h))) (callback_result df opts c)"
proof -
  let ?h' = "snd (run_callbacks g cs h)"
  from assms obtain df where load: "load res = Inr df"
    and bounds: "g_df g < length h" "g_all_countries g < length h"
      "g_medal_types g < length h" "g_year_options g < length h"
    and at: "obj_at (g_df g) h = Some (Working_Table df)"
      "obj_at (g_all_countries g) h = Some (Names (all_countries df))"
      "obj_at (g_medal_types g) h =
         Some (Medal_Names [Col_Gold, Col_Silver, Col_Bronze, Col_Total_Medals])"
      "obj_at (g_year_options g) h = Some (Options (year_options df))"
    using run_startup_objects by blast
  have kept: "take (length h) ?h' = h"
    by (rule callbacks_keep)
  have after: "obj_at (g_df g) ?h' = Some (Working_Table df)"
      "obj_at (g_all_countries g) ?h' = Some (Names (all_countries df))"
      "obj_at (g_medal_types g) ?h' =
         Some (Medal_Names [Col_Gold, Col_Silver, Col_Bronze, Col_Total_Medals])"
      "obj_at (g_year_options g) ?h' = Some (Options (year_options df))"
    using obj_at_kept [OF kept] bounds at by simp_all
  from after have "table_at (g_df g) ?h' = Some df"
    and "options_at (g_year_options g) ?h' = Some (year_options df)"
    by (simp_all add: table_at_def options_at_def)
  then have "agrees (run_callback g c ?h') (callback_result df (year_options df) c)"
    by (rule callback_agrees)
  with load at kept after show ?thesis
    by blast
qed

theorem module_objects_unchanged_witness:
  "run_startup (Parsed sample_frame) = Inr (started_names, sample_heap) \<and>
   obj_at (g_df started_names) (snd (run_callbacks started_names sample_calls sample_heap)) =
     Some (Working_Table sample_df) \<and>
   obj_at (g_all_countries started_names) (snd (run_callbacks started_names sample_calls sample_heap)) =
     Some (Names [''Cuba'', ''United States of America'']) \<and>
   obj_at (g_medal_types started_names) (snd (run_callbacks started_names sample_calls sample_heap)) =
     Some (Medal_Names [Col_Gold, Col_Silver, Col_Bronze, Col_Total_Medals]) \<and>
   obj_at (g_year_options started_names) (snd (run_callbacks started_names sample_calls sample_heap)) =
     Some (Options [(''All Years (1992-2020)'', Str ''All''),
                    (''1996 - Atlanta, United States'', Num 1996),
                    (''2000 - Sydney, Australia'', Num 2000)]) \<and>
   fst (run_callbacks started_names sample_calls sample_heap) =
     [Returned 8, Returned 9, Raised KeyError, Returned 13, Returned 18, Raised KeyError] \<and>
   length (snd (run_callbacks started_names sample_calls sample_heap)) = 21"
proof -
  have h: "run_startup (Parsed sample_frame) = Inr (started_names, sample_heap)"
    by (rule run_startup_sample)
  have d: "load (Parsed sample_frame) = Inr sample_df"
    by (rule load_sample_frame)
  have c: "all_countries sample_df = [''Cuba'', ''United States of America'']"
    by (simp add: all_countries_def sample_df_eval)
  have y: "year_options sample_df =
      [(''All Years (1992-2020)'', Str ''All''),
       (''1996 - Atlanta, United States'', Num 1996),
       (''2000 - Sydney, Australia'', Num 2000)]"
    by code_simp
  have r: "fst (run_callbacks started_names sample_calls sample_heap) =
     [Returned 8, Returned 9, Raised KeyError, Returned 13, Returned 18, Raised KeyError]"
    by code_simp
  have l: "length (snd (run_callbacks started_names sample_calls sample_heap)) = 21"
    by code_simp
  from module_objects_unchanged [OF h, of sample_calls] d c y h r l show ?thesis
    by simp
qed

text \<open>
  C9, on the medal-type list: it is not computed from the working table. A file
  without rows gives an empty working table, an empty
  country list and a year list with the fixed entry \<^verbatim>\<open>All\<close> alone, and the
  medal-type list still holds its four names, the same four as for the sample file,
  whose working table has rows.
\<close>

theorem medal_types_not_from_table:
  "run_startup (Parsed header_frame) = Inr (started_names, header_heap) \<and>
   obj_at (g_df started_names) header_heap = Some (Working_Table []) \<and>
   obj_at (g_all_countries started_names) header_heap = Some (Names []) \<and>
   obj_at (g_year_options started_names) header_heap =
     Some (Options [(''All Years (1992-2020)'', Str ''All'')]) \<and>
   obj_at (g_medal_types started_names) header_heap =
     Some (Medal_Names [Col_Gold, Col_Silver, Col_Bronze, Col_Total_Medals]) \<and>
   run_startup (Parsed sample_frame) = Inr (started_names, sample_heap) \<and>
   obj_at (g_df started_names) sample_heap = Some (Working_Table sample_df) \<and>
   sample_df \<noteq> [] \<and>
   obj_at (g_medal_types started_names) sample_heap =
     Some (Medal_Names [Col_Gold, Col_Silver, Col_Bronze, Col_Total_Medals])"
proof -
  have "run_startup (Parsed header_frame) = Inr (started_names, header_heap)"
    by (simp add: run_startup_def header_frame_def missing_cols_def expected_cols_from_user_def
        started_names_def header_heap_def store_simps set_country_name_def set_total_medals_def
        table_at_def all_countries_def medal_types_def year_options_def year_host_info_def)
  moreover have "sample_df \<noteq> []"
    by (simp add: sample_df_eval)
  ultimately show ?thesis
    using run_startup_sample
    by (simp add: started_names_def header_heap_def sample_heap_def obj_at_Cons)
qed

subsection \<open>The pie chart\<close>

text \<open>
  C6. For no selected country the pie callback returns the placeholder that says
  \<^verbatim>\<open>No country selected\<close>, and for a country name that the working table does not
  hold, such as \<^verbatim>\<open>Atlantis\<close>, the placeholder that says \<^verbatim>\<open>No data available\<close>
  (for the empty name, again the first placeholder). Neither call raises.
\<close>

theorem pie_placeholder:
  "update_pie_chart df None =
     Inr (Pie_Placeholder ''Please select a country'' ''No country selected'') \<and>
   (c \<notin> Country_Name ` set df \<longrightarrow>
      update_pie_chart df (Some c) =
        Inr (if c = [] then Pie_Placeholder ''Please select a country'' ''No country selected''
             else Pie_Placeholder (''No data for '' @ c @ '' (1992-2020)'') ''No data available''))"
proof -
  have "filter (\<lambda>r. Country_Name r = c) df = []" if "c \<notin> Country_Name ` set df"
    using that by (auto simp: filter_empty_conv)
  then show ?thesis
    by (simp add: update_pie_chart_def)
qed

theorem pie_placeholder_witness:
  "update_pie_chart sample_df None =
     Inr (Pie_Placeholder ''Please select a country'' ''No country selected'') \<and>
   ''Atlantis'' \<notin> Country_Name ` set sample_df \<and>
   update_pie_chart sample_df (Some ''Atlantis'') =
     Inr (Pie_Placeholder ''No data for Atlantis (1992-2020)'' ''No data available'')"
proof -
  have h: "''Atlantis'' \<notin> Country_Name ` set sample_df"
    by (simp add: sample_df_eval)
  from pie_placeholder [of sample_df "''Atlantis''"] h show ?thesis
    by simp
qed

text \<open>
  C3. For every country of the working table the pie callback returns exactly three
  pairs, labelled \<^verbatim>\<open>Gold\<close>, \<^verbatim>\<open>Silver\<close> and \<^verbatim>\<open>Bronze\<close> in this order, and the
  three values add up to the sum of gold, silver and bronze over the rows of that
  country. Country names are not empty: \<^verbatim>\<open>read_csv\<close> reads an empty field as a
  missing value, never as the empty string.
\<close>

theorem pie_sums:
  assumes "C \<in> Country_Name ` set df" and "C \<noteq> []"
  shows "\<exists>g s b.
           update_pie_chart df (Some C) =
             Inr (Pie (''Medal Distribution for '' @ C @ '' (1992-2020)'')
                    [(''Gold'', g), (''Silver'', s), (''Bronze'', b)]) \<and>
           g + s + b =
             sum_list (map (\<lambda>r. Gold r + Silver r + Bronze r)
                         (filter (\<lambda>r. Country_Name r = C) df))"
proof -
  let ?rows = "filter (\<lambda>r. Country_Name r = C) df"
  from assms(1) have "?rows \<noteq> []"
    by (auto simp: filter_empty_conv)
  with assms(2) have "update_pie_chart df (Some C) =
      Inr (Pie (''Medal Distribution for '' @ C @ '' (1992-2020)'')
             [(''Gold'', sum_list (map Gold ?rows)), (''Silver'', sum_list (map Silver ?rows)),
              (''Bronze'', sum_list (map Bronze ?rows))])"
    by (simp add: update_pie_chart_def Let_def)
  moreover have "sum_list (map Gold ?rows) + sum_list (map Silver ?rows) + sum_list (map Bronze ?rows)
      = sum_list (map (\<lambda>r. Gold r + Silver r + Bronze r) ?rows)"
    by (simp add: sum_list_addf)
  ultimately show ?thesis by blast
qed

theorem pie_sums_witness:
  "''Cuba'' \<in> Country_Name ` set sample_df \<and>
   update_pie_chart sample_df (Some ''Cuba'') =
     Inr (Pie ''Medal Distribution for Cuba (1992-2020)''
            [(''Gold'', 20), (''Silver'', 19), (''Bronze'', 15)]) \<and>
   sum_list (map (\<lambda>r. Gold r + Silver r + Bronze r)
               (filter (\<lambda>r. Country_Name r = ''Cuba'') sample_df)) = 54"
proof -
  have h: "''Cuba'' \<in> Country_Name ` set sample_df"
    by (simp add: sample_df_eval)
  have n: "''Cuba'' \<noteq> []" by simp
  from pie_sums [OF h n] show ?thesis
    by (simp add: sample_df_eval update_pie_chart_def)
qed

subsection \<open>The map\<close>

text \<open>
  C4. For each of the four medal columns the map callback returns exactly one row per
  distinct country name of the working table, every country included, each with the
  sum of the column over the rows of that country.
\<close>

theorem map_one_row_per_country:
  "\<exists>rows.
     update_map_chart df (Some m) =
       Inr (Choropleth (''Total '' @ replace_underscore (medal_name m) @ '' by Country (1992-2020)'') rows) \<and>
     map fst rows = sorted_list_of_set (Country_Name ` set df) \<and>
     distinct (map fst rows) \<and>
     set (map fst rows) = Country_Name ` set df \<and>
     length rows = card (Country_Name ` set df) \<and>
     map snd rows =
       map (\<lambda>c. sum_list (map (column m) (filter (\<lambda>r. Country_Name r = c) df))) (map fst rows)"
proof -
  let ?rows = "groupby_sum Country_Name (column m) df"
  have fig: "update_map_chart df (Some m) =
      Inr (Choropleth (''Total '' @ replace_underscore (medal_name m) @ '' by Country (1992-2020)'') ?rows)"
    by (simp add: update_map_chart_def)
  have keys: "map fst ?rows = sorted_list_of_set (Country_Name ` set df)"
    by (simp add: groupby_sum_keys sort_unique)
  have dist: "distinct (map fst ?rows)"
    by (rule groupby_sum_distinct)
  have set: "set (map fst ?rows) = Country_Name ` set df"
    using groupby_sum_key_set [of Country_Name "column m" df] by simp
  have len: "length ?rows = card (Country_Name ` set df)"
    by (rule groupby_sum_length)
  have vals: "map snd ?rows =
       map (\<lambda>c. sum_list (map (column m) (filter (\<lambda>r. Country_Name r = c) df))) (map fst ?rows)"
    by (simp add: groupby_sum_def comp_def)
  from fig keys dist set len vals show ?thesis by blast
qed

theorem map_one_row_per_country_witness:
  "update_map_chart sample_df (Some Col_Silver) =
     Inr (Choropleth ''Total Silver by Country (1992-2020)''
            [(''Cuba'', 19), (''United States of America'', 32)]) \<and>
   sorted_list_of_set (Country_Name ` set sample_df) = [''Cuba'', ''United States of America'']"
proof -
  from map_one_row_per_country [of sample_df Col_Silver] obtain rows
    where "update_map_chart sample_df (Some Col_Silver) =
       Inr (Choropleth (''Total '' @ replace_underscore (medal_name Col_Silver) @ '' by Country (1992-2020)'') rows)"
      and "map fst rows = sorted_list_of_set (Country_Name ` set sample_df)"
    by blast
  then show ?thesis
    by (auto simp: sample_map)
qed

subsection \<open>The area chart\<close>

text \<open>
  C1. For each of the four medal columns the area callback returns rows of exactly ten
  distinct countries, or of all countries when the working table has fewer than ten.
  These countries are ten with the largest all-years sums of the column: no country
  left out has a larger sum than a country kept. The rows are the per-(country, year)
  sums, one row for every year in which a kept country has rows.
\<close>

theorem area_top_10:
  "\<exists>title rows.
     update_area_chart df (Some m) = Inr (Area title rows) \<and>
     fst ` fst ` set rows \<subseteq> Country_Name ` set df \<and>
     card (fst ` fst ` set rows) = min 10 (card (Country_Name ` set df)) \<and>
     (\<forall>c\<in>fst ` fst ` set rows. \<forall>c'\<in>Country_Name ` set df - fst ` fst ` set rows.
        sum_list (map (column m) (filter (\<lambda>r. Country_Name r = c') df))
          \<le> sum_list (map (column m) (filter (\<lambda>r. Country_Name r = c) df))) \<and>
     distinct (map fst rows) \<and>
     (\<forall>row\<in>set rows.
        snd row = sum_list (map (column m)
          (filter (\<lambda>r. Country_Name r = fst (fst row) \<and> Year r = snd (fst row)) df))) \<and>
     (\<forall>r\<in>set df. Country_Name r \<in> fst ` fst ` set rows \<longrightarrow>
        (Country_Name r, Year r) \<in> fst ` set rows)"
proof -
  let ?key = "\<lambda>r::working_row. (Country_Name r, Year r)"
  let ?total = "\<lambda>c. sum_list (map (column m) (filter (\<lambda>r. Country_Name r = c) df))"
  let ?G2 = "groupby_sum ?key (column m) df"
  let ?N = "nlargest 10 snd (groupby_sum Country_Name (column m) df)"
  let ?top = "top_10_countries_overall df m"
  define rows where "rows = filter (\<lambda>row. fst (fst row) \<in> set ?top) ?G2"
  have top_set: "set ?top = fst ` set ?N"
    by (simp add: top_10_countries_overall_def)
  have fig: "\<exists>title. update_area_chart df (Some m) = Inr (Area title rows)"
    by (simp add: update_area_chart_def rows_def)
  have sub: "set ?top \<subseteq> Country_Name ` set df"
    unfolding top_set using top_rows_member(1) [of _ 10 Country_Name "column m" df] by blast
  have keys2: "fst ` set ?G2 = ?key ` set df"
    by (rule groupby_sum_key_set)
  have countries: "fst ` fst ` set rows = set ?top"
  proof
    show "fst ` fst ` set rows \<subseteq> set ?top" by (auto simp: rows_def)
  next
    show "set ?top \<subseteq> fst ` fst ` set rows"
    proof
      fix c assume c: "c \<in> set ?top"
      with sub obtain r where r: "r \<in> set df" and "Country_Name r = c" by blast
      then have "?key r \<in> fst ` set ?G2"
        unfolding keys2 by blast
      then obtain row where "row \<in> set ?G2" and "fst row = ?key r" by force
      with c \<open>Country_Name r = c\<close> have "row \<in> set rows" and "fst (fst row) = c"
        by (simp_all add: rows_def)
      then show "c \<in> fst ` fst ` set rows" by force
    qed
  qed
  have "card (set ?top) = length ?top"
    unfolding top_10_countries_overall_def
    by (rule distinct_card) (rule top_rows_distinct)
  also have "\<dots> = min 10 (card (Country_Name ` set df))"
    by (simp add: top_10_countries_overall_def top_rows_length)
  finally have card: "card (set ?top) = min 10 (card (Country_Name ` set df))" .
  have largest: "\<forall>c\<in>set ?top. \<forall>c'\<in>Country_Name ` set df - set ?top. ?total c' \<le> ?total c"
  proof (intro ballI)
    fix c c' assume "c \<in> set ?top" and c': "c' \<in> Country_Name ` set df - set ?top"
    then obtain kv where kv: "kv \<in> set ?N" and "fst kv = c"
      unfolding top_set by blast
    from c' have "c' \<in> Country_Name ` set df" and "c' \<notin> fst ` set ?N"
      unfolding top_set by blast+
    with kv have "?total c' \<le> snd kv"
      by (rule top_rows_largest)
    also from kv have "snd kv = ?total (fst kv)"
      by (rule top_rows_member(2))
    finally show "?total c' \<le> ?total c"
      using \<open>fst kv = c\<close> by simp
  qed
  have dist: "distinct (map fst rows)"
    unfolding rows_def by (rule distinct_map_filter) (rule groupby_sum_distinct)
  have vals: "\<forall>row\<in>set rows.
        snd row = sum_list (map (column m)
          (filter (\<lambda>r. Country_Name r = fst (fst row) \<and> Year r = snd (fst row)) df))"
  proof
    fix row assume "row \<in> set rows"
    then have "row \<in> set ?G2" by (simp add: rows_def)
    then have "snd row = sum_list (map (column m) (filter (\<lambda>r. ?key r = fst row) df))"
      by (rule groupby_sum_value)
    moreover have "(\<lambda>r::working_row. ?key r = fst row) =
        (\<lambda>r. Country_Name r = fst (fst row) \<and> Year r = snd (fst row))"
      by (auto simp: prod_eq_iff)
    ultimately show "snd row = sum_list (map (column m)
          (filter (\<lambda>r. Country_Name r = fst (fst row) \<and> Year r = snd (fst row)) df))"
      by simp
  qed
  have complete: "\<forall>r\<in>set df. Country_Name r \<in> set ?top \<longrightarrow> ?key r \<in> fst ` set rows"
  proof (intro ballI impI)
    fix r assume r: "r \<in> set df" and top: "Country_Name r \<in> set ?top"
    from r have "?key r \<in> fst ` set ?G2"
      unfolding keys2 by blast
    then obtain row where "row \<in> set ?G2" and "fst row = ?key r" by force
    with top have "row \<in> set rows" by (simp add: rows_def)
    with \<open>fst row = ?key r\<close> show "?key r \<in> fst ` set rows" by force
  qed
  from fig obtain title where "update_area_chart df (Some m) = Inr (Area title rows)" ..
  with sub card largest dist vals complete show ?thesis
    unfolding countries [symmetric] by blast
qed

theorem area_top_10_witness:
  "update_area_chart twelve_df (Some Col_Gold) =
     Inr (Area ''Top 10 Countries by Gold (1992-2020)''
       [((''A'', 2012), 3), ((''B'', 2012), 12), ((''C'', 2012), 7),
        ((''E'', 2012), 9), ((''F'', 2012), 4), ((''G'', 2012), 8),
        ((''H'', 2012), 2), ((''I'', 2012), 6), ((''K'', 2012), 10),
        ((''L'', 2012), 5)]) \<and>
   card (Country_Name ` set twelve_df) = 12 \<and>
   card (fst ` fst ` set
       [((''A'', 2012), 3::int), ((''B'', 2012::int), 12), ((''C'', 2012), 7),
        ((''E'', 2012), 9), ((''F'', 2012), 4), ((''G'', 2012), 8),
        ((''H'', 2012), 2), ((''I'', 2012), 6), ((''K'', 2012), 10),
        ((''L'', 2012), 5)]) = 10"
proof -
  define R :: "((string \<times> int) \<times> int) list" where
    "R = [((''A'', 2012), 3), ((''B'', 2012), 12), ((''C'', 2012), 7),
        ((''E'', 2012), 9), ((''F'', 2012), 4), ((''G'', 2012), 8),
        ((''H'', 2012), 2), ((''I'', 2012), 6), ((''K'', 2012), 10),
        ((''L'', 2012), 5)]"
  have "\<exists>title rows. update_area_chart twelve_df (Some Col_Gold) = Inr (Area title rows) \<and>
      card (fst ` fst ` set rows) = min 10 (card (Country_Name ` set twelve_df))"
    using area_top_10 [of twelve_df Col_Gold]
    apply (elim exE conjE)
    apply (intro exI conjI)
     apply assumption+
    done
  then obtain title rows
    where fig: "update_area_chart twelve_df (Some Col_Gold) = Inr (Area title rows)"
      and card: "card (fst ` fst ` set rows) = min 10 (card (Country_Name ` set twelve_df))"
    by (elim exE conjE)
  from fig have "rows = R"
    by (simp add: twelve_area R_def)
  with card have "card (fst ` fst ` set R) = min 10 (card (Country_Name ` set twelve_df))"
    by (simp only:)
  then have "card (fst ` fst ` set R) = min 10 12"
    by (simp only: twelve_card)
  then have "card (fst ` fst ` set R) = 10"
    by simp
  then have "card (fst ` fst ` set
       [((''A'', 2012), 3::int), ((''B'', 2012::int), 12), ((''C'', 2012), 7),
        ((''E'', 2012), 9), ((''F'', 2012), 4), ((''G'', 2012), 8),
        ((''H'', 2012), 2), ((''I'', 2012), 6), ((''K'', 2012), 10),
        ((''L'', 2012), 5)]) = 10"
    unfolding R_def .
  with twelve_area twelve_card show ?thesis
    by (intro conjI)
qed

subsection \<open>The bar chart\<close>

text \<open>
  C2. With the year selection \<^verbatim>\<open>All\<close> the bar callback returns at most ten rows, one
  per country with the sum of the medal column, in descending order of the sum, and no
  country left out has a larger sum than a country shown. With a year selected, the
  rows are those of the same computation on the rows of the working table of that year.
\<close>

theorem bar_top_10:
  "(\<exists>title rows.
      update_bar_chart df opts (Some m) (Some (Str ''All'')) = Inr (Bar title rows (bar_color_val m)) \<and>
      length rows \<le> 10 \<and>
      length rows = min 10 (card (Country_Name ` set df)) \<and>
      sorted_wrt (\<ge>) (map snd rows) \<and>
      distinct (map fst rows) \<and>
      (\<forall>row\<in>set rows. fst row \<in> Country_Name ` set df \<and>
         snd row = sum_list (map (column m) (filter (\<lambda>r. Country_Name r = fst row) df))) \<and>
      (\<forall>row\<in>set rows. \<forall>c\<in>Country_Name ` set df - fst ` set rows.
         sum_list (map (column m) (filter (\<lambda>r. Country_Name r = c) df)) \<le> snd row)) \<and>
   (\<exists>title title' rows.
      update_bar_chart df opts (Some m) (Some (Num n)) = Inr (Bar title rows (bar_color_val m)) \<and>
      update_bar_chart (filter (\<lambda>r. Year r = n) df) opts (Some m) (Some (Str ''All'')) =
        Inr (Bar title' rows (bar_color_val m)))"
proof -
  let ?rows = "nlargest 10 snd (groupby_sum Country_Name (column m) df)"
  have all: "\<exists>title. update_bar_chart df opts (Some m) (Some (Str ''All'')) =
      Inr (Bar title ?rows (bar_color_val m))"
    by (simp add: update_bar_chart_def current_df_bar_def)
  have len: "length ?rows = min 10 (card (Country_Name ` set df))"
    by (rule top_rows_length)
  then have le: "length ?rows \<le> 10"
    by simp
  have desc: "sorted_wrt (\<ge>) (map snd ?rows)"
    by (rule top_rows_descending)
  have dist: "distinct (map fst ?rows)"
    by (rule top_rows_distinct)
  have mem: "\<forall>row\<in>set ?rows. fst row \<in> Country_Name ` set df \<and>
         snd row = sum_list (map (column m) (filter (\<lambda>r. Country_Name r = fst row) df))"
    using top_rows_member [of _ 10 Country_Name "column m" df] by blast
  have top: "\<forall>row\<in>set ?rows. \<forall>c\<in>Country_Name ` set df - fst ` set ?rows.
         sum_list (map (column m) (filter (\<lambda>r. Country_Name r = c) df)) \<le> snd row"
    using top_rows_largest [of _ 10 Country_Name "column m" df] by blast
  have year: "current_df_bar df (Some (Num n)) = filter (\<lambda>r. Year r = n) df"
    by (simp add: current_df_bar_def)
  have part2: "\<exists>title title' rows.
      update_bar_chart df opts (Some m) (Some (Num n)) = Inr (Bar title rows (bar_color_val m)) \<and>
      update_bar_chart (filter (\<lambda>r. Year r = n) df) opts (Some m) (Some (Str ''All'')) =
        Inr (Bar title' rows (bar_color_val m))"
    by (simp add: update_bar_chart_def year) (simp add: current_df_bar_def)
  from all len le desc dist mem top have part1: "\<exists>title rows.
      update_bar_chart df opts (Some m) (Some (Str ''All'')) = Inr (Bar title rows (bar_color_val m)) \<and>
      length rows \<le> 10 \<and>
      length rows = min 10 (card (Country_Name ` set df)) \<and>
      sorted_wrt (\<ge>) (map snd rows) \<and>
      distinct (map fst rows) \<and>
      (\<forall>row\<in>set rows. fst row \<in> Country_Name ` set df \<and>
         snd row = sum_list (map (column m) (filter (\<lambda>r. Country_Name r = fst row) df))) \<and>
      (\<forall>row\<in>set rows. \<forall>c\<in>Country_Name ` set df - fst ` set rows.
         sum_list (map (column m) (filter (\<lambda>r. Country_Name r = c) df)) \<le> snd row)"
    by blast
  from part1 part2 show ?thesis by (rule conjI)
qed

theorem bar_top_10_witness:
  "update_bar_chart twelve_df (year_options twelve_df) (Some Col_Gold) (Some (Str ''All'')) =
     Inr (Bar ''Top 10 Countries by Gold in All Years (1992-2020)''
       [(''B'', 12), (''K'', 10), (''E'', 9), (''G'', 8), (''C'', 7),
        (''I'', 6), (''L'', 5), (''F'', 4), (''A'', 3), (''H'', 2)]
       (Some ''gold'')) \<and>
   sorted_wrt (\<ge>) [12, 10, 9, 8, 7, 6, 5, 4, 3, 2 :: int] \<and>
   update_bar_chart sample_df (year_options sample_df) (Some Col_Total_Medals) (Some (Num 2000)) =
     Inr (Bar ''Top 10 Countries by Total Medals in 2000 - Sydney, Australia''
       [(''Cuba'', 29)] None)"
proof -
  from bar_top_10 [of twelve_df "year_options twelve_df" Col_Gold] obtain title rows
    where "update_bar_chart twelve_df (year_options twelve_df) (Some Col_Gold) (Some (Str ''All'')) =
        Inr (Bar title rows (bar_color_val Col_Gold))"
      and "sorted_wrt (\<ge>) (map snd rows)"
    by blast
  then show ?thesis
    by (simp add: twelve_bar sample_bar)
qed

subsection \<open>Selections that miss\<close>

text \<open>
  A year that the working table does not hold, a cleared year dropdown included, gives
  a bar chart without rows.
\<close>

lemma year_miss_is_empty_chart:
  assumes "\<forall>r\<in>set df. Some (Num (Year r)) \<noteq> y" and "y \<noteq> Some (Str ''All'')"
  shows "\<exists>title. update_bar_chart df opts (Some m) y = Inr (Bar title [] (bar_color_val m))"
proof -
  from assms have "current_df_bar df y = []"
    by (auto simp: current_df_bar_def filter_empty_conv)
  then show ?thesis
    by (simp add: update_bar_chart_def groupby_sum_def nlargest_def)
qed

text \<open>
  C5. The claim asks every callback to answer a selection that misses, a cleared
  dropdown included, with a placeholder chart. With the medal-type dropdown cleared the
  map, area and bar callbacks look the column \<^verbatim>\<open>None\<close> up in the working table and
  raise \<^verbatim>\<open>KeyError\<close>; only the pie callback guards its selection.
\<close>

theorem medal_type_none_raises:
  "update_map_chart df None = Inl KeyError \<and>
   update_area_chart df None = Inl KeyError \<and>
   update_bar_chart df opts None y = Inl KeyError"
  by (simp add: update_map_chart_def update_area_chart_def update_bar_chart_def)

end
